theory Spec2Isabelle
  imports Complex_Main
begin

section \<open>The element type\<close>

text \<open>
  Both class templates are parametric in the element type \<open>T\<close>. The model is parametric
  in a HOL type \<open>'a\<close>: \<open>T\<close>'s \<open>+\<close>, \<open>-\<close>, \<open>*\<close>, \<open>==\<close> and \<open><\<close> are the operations of
  the type classes \<open>plus\<close>, \<open>minus\<close>, \<open>times\<close>, HOL equality and \<open>ord\<close>, and the
  value-initialised \<open>value_type{}\<close> is \<open>0\<close>. What C++ computes for a division or a square
  root depends on \<open>T\<close> (truncation, conversions, division by zero), so these are
  parameters of the functions that use them:
  \<^item> \<open>dv x y\<close>: \<open>x / y\<close> for two values of \<open>T\<close> (also the value \<open>x /= y\<close> stores);
  \<^item> \<open>dv_int x k\<close>: \<open>x / k\<close> for an \<open>int\<close> literal \<open>k\<close>, converted to \<open>T\<close>;
  \<^item> \<open>dv_size x n\<close>: \<open>x / n\<close> for a \<open>std::size_t\<close> value \<open>n\<close>, converted to \<open>T\<close>;
  \<^item> \<open>sq x\<close>: \<open>std::sqrt(x)\<close>, converted to \<open>T\<close>.
\<close>

subsection \<open>The element type \<open>int\<close>\<close>

text \<open>
  A C++ \<open>int\<close> is a HOL \<open>int\<close> in the range \<open>-2^31 .. 2^31 - 1\<close> (signed overflow is
  undefined in C++, so \<open>+\<close>, \<open>-\<close> and \<open>*\<close> are the exact ones). Division of two
  \<open>int\<close>s truncates towards zero (by zero it is undefined; no theorem divides by
  zero). In \<open>x / n\<close> with \<open>n\<close> of type \<open>std::size_t\<close> the usual
  arithmetic conversions turn \<open>x\<close> into a \<open>std::size_t\<close> (a 64-bit unsigned value, modulo
  \<open>2^64\<close>), the division is unsigned, and returning the quotient as an \<open>int\<close> keeps its low
  32 bits, read as two's complement.
\<close>

definition int_div_int :: "int \<Rightarrow> int \<Rightarrow> int" where
  "int_div_int x k = sgn x * sgn k * (\<bar>x\<bar> div \<bar>k\<bar>)"

definition to_size_t :: "int \<Rightarrow> int" where
  "to_size_t x = x mod 2 ^ 64"

definition size_t_to_int :: "int \<Rightarrow> int" where
  "size_t_to_int u = (u + 2 ^ 31) mod 2 ^ 32 - 2 ^ 31"

definition int_div_size_t :: "int \<Rightarrow> nat \<Rightarrow> int" where
  "int_div_size_t x n = size_t_to_int (to_size_t x div int n)"

section \<open>Algorithms of the standard library\<close>

text \<open>
  An iterator into a \<open>std::array\<close> is an index, and the past-the-end iterator is the
  array's length. \<open>iter_range p i j\<close> lists the elements of the range \<open>[i, j)\<close>,
  \<open>iter_from p i\<close> those from \<open>i\<close> on, and \<open>deref p i\<close> is \<open>*i\<close>: there is no value
  behind the past-the-end iterator (\<open>None\<close>).
\<close>

definition iter_range :: "'a list \<Rightarrow> nat \<Rightarrow> nat \<Rightarrow> 'a list" where
  "iter_range p i j = take (j - i) (drop i p)"

definition iter_from :: "'a list \<Rightarrow> nat \<Rightarrow> 'a list" where
  "iter_from p i = drop i p"

definition deref :: "'a list \<Rightarrow> nat \<Rightarrow> 'a option" where
  "deref p i = (if i < length p then Some (p ! i) else None)"

text \<open>
  The reductions name their ranges by \<open>p.first()\<close>, \<open>p.last()\<close> and \<open>p.second()\<close>.
  \<open>std::array\<close> has no such members and the repository declares none.
\<close>

text \<open>
  Modelled from the spec: \<open>first()\<close>, missing from \<open>std::array\<close> and from the
  repository. The spec describes every reduction that calls it (\<open>sum\<close>, \<open>prod\<close>, \<open>dot\<close>,
  \<open>magnitude2\<close>, \<open>min\<close>, \<open>max\<close>) as ranging over all \<open>N\<close> elements from element 0 on, so
  it is the iterator to element 0.
\<close>

definition first :: "'a list \<Rightarrow> nat" where
  "first p = 0"

text \<open>
  Modelled from the spec: \<open>last()\<close>, missing from \<open>std::array\<close> and from the repository.
  It ends the ranges of \<open>prod\<close>, \<open>dot\<close>, \<open>magnitude2\<close>, \<open>min\<close> and \<open>max\<close>, which the spec
  describes as covering all \<open>N\<close> elements, so it is the past-the-end iterator.
\<close>

definition last' :: "'a list \<Rightarrow> nat" where
  "last' p = length p"

text \<open>
  Modelled from the spec: \<open>second()\<close>, missing from \<open>std::array\<close> and from the
  repository. It ends the range of \<open>sum\<close>, which the spec describes as the total of all
  \<open>N\<close> elements, so it is the past-the-end iterator.
\<close>

definition second :: "'a list \<Rightarrow> nat" where
  "second p = length p"

text \<open>
  \<open>std::accumulate(first, last, init, op)\<close>:
  \<^verbatim>\<open>for (; first != last; ++first) init = op(init, *first); return init;\<close>
\<close>

fun accumulate :: "'a list \<Rightarrow> 'b \<Rightarrow> ('b \<Rightarrow> 'a \<Rightarrow> 'b) \<Rightarrow> 'b" where
  "accumulate [] init binop = init"
| "accumulate (x # xs) init binop = accumulate xs (binop init x) binop"

text \<open>
  \<open>std::transform_reduce(first1, last1, first2, init)\<close> adds the products of corresponding
  elements of the two ranges to \<open>init\<close>. The standard leaves the grouping of the additions
  open; the model adds in sequence, which gives the result of every grouping where
  \<open>T\<close>'s addition is associative and commutative.
\<close>

fun transform_reduce :: "'a::{plus,times} list \<Rightarrow> 'a list \<Rightarrow> 'a \<Rightarrow> 'a" where
  "transform_reduce (x # xs) (y # ys) init = transform_reduce xs ys (init + x * y)"
| "transform_reduce _ _ init = init"

text \<open>
  \<open>*std::min_element(first, last)\<close> and \<open>*std::max_element(first, last)\<close>: the first
  smallest (largest) element of the range. On an empty range the algorithm returns
  \<open>last\<close>, which has no value behind it.
  \<^verbatim>\<open>smallest = first; while (++first != last) if (*first < *smallest) smallest = first;\<close>
  \<^verbatim>\<open>largest = first; while (++first != last) if (*largest < *first) largest = first;\<close>
\<close>

fun min_element :: "'a::ord list \<Rightarrow> 'a option" where
  "min_element [] = None"
| "min_element (x # xs) =
     Some (fold (\<lambda>y smallest. if y < smallest then y else smallest) xs x)"

fun max_element :: "'a::ord list \<Rightarrow> 'a option" where
  "max_element [] = None"
| "max_element (x # xs) =
     Some (fold (\<lambda>y largest. if largest < y then y else largest) xs x)"

section \<open>\<open>v::vec3\<close>: the fixed 3-dimensional vector\<close>

text \<open>
  The class has the single member \<open>std::array<T, 3> p\<close>; \<open>Vec3 x y z\<close> is the object
  whose \<open>p\<close> is \<open>{x, y, z}\<close>, as the constructor \<open>vec3(x, y, z)\<close> builds it.
  A member function that changes the receiver is a function to the receiver after the
  call; where it returns \<open>*this\<close> by reference, that value is also what the call returns.
  A scalar passed by \<open>const_reference\<close> is its value (the caller passes no reference into
  the receiver itself).
\<close>

datatype 'a vec3 = Vec3 'a 'a 'a

fun array3 :: "'a vec3 \<Rightarrow> 'a list" where
  "array3 (Vec3 p0 p1 p2) = [p0, p1, p2]"

datatype failure = Out_of_range string | Terminate

text \<open>
  \<open>impl::throw_out_of_range\<close> never returns: it throws \<open>std::out_of_range(s)\<close> where the
  compiler defines \<open>__cpp_exceptions\<close> and calls \<open>terminate()\<close>, dropping \<open>s\<close>, where it
  does not. The macro is the parameter \<open>cpp_exceptions\<close>.
\<close>

definition throw_out_of_range :: "bool \<Rightarrow> string \<Rightarrow> failure" where
  "throw_out_of_range cpp_exceptions s =
     (if cpp_exceptions then Out_of_range s else Terminate)"

text \<open>
  \<open>swap(other)\<close> exchanges the two arrays (the receiver after the call, then \<open>other\<close>
  after it); \<open>fill(u)\<close> stores \<open>u\<close> in every element.
\<close>

fun vec3_swap :: "'a vec3 \<Rightarrow> 'a vec3 \<Rightarrow> 'a vec3 \<times> 'a vec3" where
  "vec3_swap (Vec3 p0 p1 p2) (Vec3 o0 o1 o2) = (Vec3 o0 o1 o2, Vec3 p0 p1 p2)"

fun vec3_fill :: "'a vec3 \<Rightarrow> 'a \<Rightarrow> 'a vec3" where
  "vec3_fill (Vec3 p0 p1 p2) u = Vec3 u u u"

fun vec3_x :: "'a vec3 \<Rightarrow> 'a" where
  "vec3_x (Vec3 p0 p1 p2) = p0"

fun vec3_y :: "'a vec3 \<Rightarrow> 'a" where
  "vec3_y (Vec3 p0 p1 p2) = p1"

fun vec3_z :: "'a vec3 \<Rightarrow> 'a" where
  "vec3_z (Vec3 p0 p1 p2) = p2"

text \<open>The setters \<open>x(v)\<close>, \<open>y(v)\<close>, \<open>z(v)\<close>.\<close>

fun vec3_set_x :: "'a vec3 \<Rightarrow> 'a \<Rightarrow> 'a vec3" where
  "vec3_set_x (Vec3 p0 p1 p2) v = Vec3 v p1 p2"

fun vec3_set_y :: "'a vec3 \<Rightarrow> 'a \<Rightarrow> 'a vec3" where
  "vec3_set_y (Vec3 p0 p1 p2) v = Vec3 p0 v p2"

fun vec3_set_z :: "'a vec3 \<Rightarrow> 'a \<Rightarrow> 'a vec3" where
  "vec3_set_z (Vec3 p0 p1 p2) v = Vec3 p0 p1 v"

fun vec3_dot :: "'a::{plus,times} vec3 \<Rightarrow> 'a vec3 \<Rightarrow> 'a" where
  "vec3_dot (Vec3 p0 p1 p2) (Vec3 o0 o1 o2) = (p0 * o0) + (p1 * o1) + (p2 * o2)"

text \<open>
  \<open>cross\<close> is declared to return \<open>const vec3&\<close> and returns a braced list of three
  values: the reference is bound to a temporary \<open>vec3\<close> built from the list, and the
  temporary is destroyed at the end of the \<open>return\<close> statement. A returned reference
  either refers to an object that outlives the call (\<open>Lives\<close>) or to such a temporary
  (\<open>Dangles\<close>, with the value the temporary held); reading through a dangling reference
  is undefined behaviour (\<open>None\<close>).
\<close>

datatype 'a reference = Lives 'a | Dangles 'a

fun read_reference :: "'a reference \<Rightarrow> 'a option" where
  "read_reference (Lives x) = Some x"
| "read_reference (Dangles x) = None"

fun vec3_cross :: "'a::{minus,times} vec3 \<Rightarrow> 'a vec3 \<Rightarrow> 'a vec3 reference" where
  "vec3_cross (Vec3 p0 p1 p2) (Vec3 o0 o1 o2) =
     Dangles (Vec3 ((p1 * o2) - (p2 * o1)) ((p2 * o0) - (p0 * o2)) ((p0 * o1) - (p1 * o0)))"

fun vec3_magnitude2 :: "'a::{plus,times} vec3 \<Rightarrow> 'a" where
  "vec3_magnitude2 (Vec3 p0 p1 p2) = (p0 * p0) + (p1 * p1) + (p2 * p2)"

definition vec3_magnitude :: "('a \<Rightarrow> 'a) \<Rightarrow> 'a::{plus,times} vec3 \<Rightarrow> 'a" where
  "vec3_magnitude sq v = sq (vec3_magnitude2 v)"

fun vec3_sum :: "'a::plus vec3 \<Rightarrow> 'a" where
  "vec3_sum (Vec3 p0 p1 p2) = p0 + p1 + p2"

fun vec3_prod :: "'a::times vec3 \<Rightarrow> 'a" where
  "vec3_prod (Vec3 p0 p1 p2) = p0 * p1 * p2"

definition vec3_mean :: "('a \<Rightarrow> int \<Rightarrow> 'a) \<Rightarrow> 'a::plus vec3 \<Rightarrow> 'a" where
  "vec3_mean dv_int v = dv_int (vec3_sum v) 3"

definition vec3_min :: "'a::ord vec3 \<Rightarrow> 'a option" where
  "vec3_min v = min_element (iter_range (array3 v) (first (array3 v)) (last' (array3 v)))"

definition vec3_max :: "'a::ord vec3 \<Rightarrow> 'a option" where
  "vec3_max v = max_element (iter_range (array3 v) (first (array3 v)) (last' (array3 v)))"

fun vec3_sub_assign :: "'a::minus vec3 \<Rightarrow> 'a vec3 \<Rightarrow> 'a vec3" where
  "vec3_sub_assign (Vec3 p0 p1 p2) (Vec3 r0 r1 r2) = Vec3 (p0 - r0) (p1 - r1) (p2 - r2)"

fun vec3_add_assign :: "'a::plus vec3 \<Rightarrow> 'a vec3 \<Rightarrow> 'a vec3" where
  "vec3_add_assign (Vec3 p0 p1 p2) (Vec3 r0 r1 r2) = Vec3 (p0 + r0) (p1 + r1) (p2 + r2)"

fun vec3_mul_assign :: "'a::times vec3 \<Rightarrow> 'a vec3 \<Rightarrow> 'a vec3" where
  "vec3_mul_assign (Vec3 p0 p1 p2) (Vec3 v0 v1 v2) = Vec3 (p0 * v0) (p1 * v1) (p2 * v2)"

fun vec3_div_assign :: "('a \<Rightarrow> 'a \<Rightarrow> 'a) \<Rightarrow> 'a vec3 \<Rightarrow> 'a vec3 \<Rightarrow> 'a vec3" where
  "vec3_div_assign dv (Vec3 p0 p1 p2) (Vec3 v0 v1 v2) = Vec3 (dv p0 v0) (dv p1 v1) (dv p2 v2)"

fun vec3_mul_assign_scalar :: "'a::times vec3 \<Rightarrow> 'a \<Rightarrow> 'a vec3" where
  "vec3_mul_assign_scalar (Vec3 p0 p1 p2) v = Vec3 (p0 * v) (p1 * v) (p2 * v)"

fun vec3_div_assign_scalar :: "('a \<Rightarrow> 'a \<Rightarrow> 'a) \<Rightarrow> 'a vec3 \<Rightarrow> 'a \<Rightarrow> 'a vec3" where
  "vec3_div_assign_scalar dv (Vec3 p0 p1 p2) v = Vec3 (dv p0 v) (dv p1 v) (dv p2 v)"

text \<open>\<open>normalize()\<close>: \<open>return *this /= magnitude();\<close>\<close>

definition vec3_normalize ::
  "('a \<Rightarrow> 'a) \<Rightarrow> ('a \<Rightarrow> 'a \<Rightarrow> 'a) \<Rightarrow> 'a::{plus,times} vec3 \<Rightarrow> 'a vec3" where
  "vec3_normalize sq dv v = vec3_div_assign_scalar dv v (vec3_magnitude sq v)"

text \<open>
  \<open>operator[]\<close> is unchecked: \<open>p[n]\<close> with \<open>n \<ge> 3\<close> is undefined behaviour (\<open>None\<close>).
\<close>

definition vec3_subscript :: "'a vec3 \<Rightarrow> nat \<Rightarrow> 'a option" where
  "vec3_subscript v n = (if n < 3 then Some (array3 v ! n) else None)"

text \<open>
  \<open>at(n)\<close>, both overloads. The call is modelled by its outcome (the failure it leaves by,
  or the element it returns) together with the receiver after the call.
\<close>

definition vec3_at :: "bool \<Rightarrow> 'a vec3 \<Rightarrow> nat \<Rightarrow> (failure + 'a) \<times> 'a vec3" where
  "vec3_at cpp_exceptions v n =
     (if n \<ge> 3 then (Inl (throw_out_of_range cpp_exceptions ''v::vec3::at''), v)
      else (Inr (array3 v ! n), v))"

section \<open>\<open>v::vec\<close>: the N-dimensional vector\<close>

text \<open>
  The class has the single member \<open>std::array<T, N> p\<close>; \<open>Vec p\<close> is the object with
  these elements, and the template parameter \<open>N\<close> is the length of the list. Two
  operands of one operation have the same \<open>N\<close> by their type. A \<open>for\<close> loop over
  \<open>i = 0, ..., N - 1\<close> is a \<open>fold\<close> over \<open>[0..<N]\<close> of the loop body, which updates
  \<open>p[i]\<close>.
\<close>

datatype 'a vec = Vec "'a list"

fun vec_N :: "'a vec \<Rightarrow> nat" where
  "vec_N (Vec p) = length p"

fun array :: "'a vec \<Rightarrow> 'a list" where
  "array (Vec p) = p"

fun vec_swap :: "'a vec \<Rightarrow> 'a vec \<Rightarrow> 'a vec \<times> 'a vec" where
  "vec_swap (Vec p) (Vec q) = (Vec q, Vec p)"

fun vec_fill :: "'a vec \<Rightarrow> 'a \<Rightarrow> 'a vec" where
  "vec_fill (Vec p) u = Vec (map (\<lambda>x. u) p)"

fun vec_sum :: "'a::{zero,plus} vec \<Rightarrow> 'a" where
  "vec_sum (Vec p) = accumulate (iter_range p (first p) (second p)) 0 (+)"

text \<open>
  \<open>prod()\<close>: \<open>std::accumulate(++p.first(), p.last(), *p.first(), std::multiplies{})\<close>.
  For \<open>N = 0\<close> the seed \<open>*p.first()\<close> dereferences the past-the-end iterator (\<open>None\<close>).
\<close>

fun vec_prod :: "'a::times vec \<Rightarrow> 'a option" where
  "vec_prod (Vec p) =
     (case deref p (first p) of
        None \<Rightarrow> None
      | Some seed \<Rightarrow> Some (accumulate (iter_range p (Suc (first p)) (last' p)) seed (*)))"

definition vec_mean :: "('a \<Rightarrow> nat \<Rightarrow> 'a) \<Rightarrow> 'a::{zero,plus} vec \<Rightarrow> 'a" where
  "vec_mean dv_size v = dv_size (vec_sum v) (vec_N v)"

fun vec_dot :: "'a::{zero,plus,times} vec \<Rightarrow> 'a vec \<Rightarrow> 'a" where
  "vec_dot (Vec p) (Vec q) =
     transform_reduce (iter_range p (first p) (last' p)) (iter_from q (first q)) 0"

text \<open>
  \<open>cross\<close> (a member for \<open>N = 3\<close> only) is declared to return \<open>const vec&\<close> and returns a
  braced list of three values. \<open>vec\<close> declares no constructor and, with its private
  member, is no aggregate, so no \<open>vec\<close> can be built from the list: the member is
  ill-formed wherever it is used and has no function here (see \<open>vec_call\<close>).
\<close>

fun vec_magnitude2 :: "'a::{zero,plus,times} vec \<Rightarrow> 'a" where
  "vec_magnitude2 (Vec p) =
     transform_reduce (iter_range p (first p) (last' p)) (iter_from p (first p)) 0"

definition vec_magnitude :: "('a \<Rightarrow> 'a) \<Rightarrow> 'a::{zero,plus,times} vec \<Rightarrow> 'a" where
  "vec_magnitude sq v = sq (vec_magnitude2 v)"

fun vec_min :: "'a::ord vec \<Rightarrow> 'a option" where
  "vec_min (Vec p) = min_element (iter_range p (first p) (last' p))"

fun vec_max :: "'a::ord vec \<Rightarrow> 'a option" where
  "vec_max (Vec p) = max_element (iter_range p (first p) (last' p))"

fun vec_add_assign :: "'a::plus vec \<Rightarrow> 'a vec \<Rightarrow> 'a vec" where
  "vec_add_assign (Vec p) (Vec r) =
     Vec (fold (\<lambda>i p. p[i := p ! i + r ! i]) [0..<length p] p)"

fun vec_sub_assign :: "'a::minus vec \<Rightarrow> 'a vec \<Rightarrow> 'a vec" where
  "vec_sub_assign (Vec p) (Vec r) =
     Vec (fold (\<lambda>i p. p[i := p ! i - r ! i]) [0..<length p] p)"

fun vec_mul_assign :: "'a::times vec \<Rightarrow> 'a vec \<Rightarrow> 'a vec" where
  "vec_mul_assign (Vec p) (Vec r) =
     Vec (fold (\<lambda>i p. p[i := p ! i * r ! i]) [0..<length p] p)"

fun vec_div_assign :: "('a \<Rightarrow> 'a \<Rightarrow> 'a) \<Rightarrow> 'a vec \<Rightarrow> 'a vec \<Rightarrow> 'a vec" where
  "vec_div_assign dv (Vec p) (Vec r) =
     Vec (fold (\<lambda>i p. p[i := dv (p ! i) (r ! i)]) [0..<length p] p)"

fun vec_mul_assign_scalar :: "'a::times vec \<Rightarrow> 'a \<Rightarrow> 'a vec" where
  "vec_mul_assign_scalar (Vec p) v =
     Vec (fold (\<lambda>i p. p[i := p ! i * v]) [0..<length p] p)"

fun vec_div_assign_scalar :: "('a \<Rightarrow> 'a \<Rightarrow> 'a) \<Rightarrow> 'a vec \<Rightarrow> 'a \<Rightarrow> 'a vec" where
  "vec_div_assign_scalar dv (Vec p) v =
     Vec (fold (\<lambda>i p. p[i := dv (p ! i) v]) [0..<length p] p)"

definition vec_normalize ::
  "('a \<Rightarrow> 'a) \<Rightarrow> ('a \<Rightarrow> 'a \<Rightarrow> 'a) \<Rightarrow> 'a::{zero,plus,times} vec \<Rightarrow> 'a vec" where
  "vec_normalize sq dv v = vec_div_assign_scalar dv v (vec_magnitude sq v)"

fun vec_subscript :: "'a vec \<Rightarrow> nat \<Rightarrow> 'a option" where
  "vec_subscript (Vec p) n = (if n < length p then Some (p ! n) else None)"

section \<open>The free functions\<close>

text \<open>
  A free function takes its left operand by value and its right operand by
  \<open>const\<close> reference. The call is modelled by what it returns together with the values
  the caller's two operands hold after it: the parameter \<open>lhs\<close> (\<open>v\<close>, \<open>a\<close>) is a copy of
  the caller's object, and the compound assignment works on that copy.
\<close>

text \<open>
  A \<open>const\<close> member function that takes its argument by \<open>const\<close> reference reads both
  objects and writes neither: its call returns the function's value and leaves the
  receiver and the argument as they were.
\<close>

definition const_call :: "('s \<Rightarrow> 'b \<Rightarrow> 'r) \<Rightarrow> 's \<Rightarrow> 'b \<Rightarrow> 'r \<times> 's \<times> 'b" where
  "const_call f this arg = (f this arg, this, arg)"

definition normalize_vec3 ::
  "('a \<Rightarrow> 'a) \<Rightarrow> ('a \<Rightarrow> 'a \<Rightarrow> 'a) \<Rightarrow> 'a::{plus,times} vec3 \<Rightarrow> 'a vec3 \<times> 'a vec3" where
  "normalize_vec3 sq dv arg = (let v = arg; v = vec3_normalize sq dv v in (v, arg))"

text \<open>
  The free \<open>dot(a, b)\<close> of either header is declared to return the vector type and
  returns the scalar \<open>a.dot(b)\<close>. No conversion from \<open>T\<close> to the vector type is declared,
  so the function template cannot be instantiated: it has no function here (see
  \<open>vec3_call\<close> and \<open>vec_call\<close>).
\<close>

definition operator_plus_vec3 ::
  "'a::plus vec3 \<Rightarrow> 'a vec3 \<Rightarrow> 'a vec3 \<times> 'a vec3 \<times> 'a vec3" where
  "operator_plus_vec3 arg rhs =
     (let lhs = arg; lhs = vec3_add_assign lhs rhs in (lhs, arg, rhs))"

definition operator_minus_vec3 ::
  "'a::minus vec3 \<Rightarrow> 'a vec3 \<Rightarrow> 'a vec3 \<times> 'a vec3 \<times> 'a vec3" where
  "operator_minus_vec3 arg rhs =
     (let lhs = arg; lhs = vec3_sub_assign lhs rhs in (lhs, arg, rhs))"

definition operator_times_vec3 ::
  "'a::times vec3 \<Rightarrow> 'a vec3 \<Rightarrow> 'a vec3 \<times> 'a vec3 \<times> 'a vec3" where
  "operator_times_vec3 arg rhs =
     (let lhs = arg; lhs = vec3_mul_assign lhs rhs in (lhs, arg, rhs))"

definition operator_divide_vec3 ::
  "('a \<Rightarrow> 'a \<Rightarrow> 'a) \<Rightarrow> 'a vec3 \<Rightarrow> 'a vec3 \<Rightarrow> 'a vec3 \<times> 'a vec3 \<times> 'a vec3" where
  "operator_divide_vec3 dv arg rhs =
     (let lhs = arg; lhs = vec3_div_assign dv lhs rhs in (lhs, arg, rhs))"

definition operator_times_scalar_vec3 ::
  "'a::times vec3 \<Rightarrow> 'a \<Rightarrow> 'a vec3 \<times> 'a vec3 \<times> 'a" where
  "operator_times_scalar_vec3 arg rhs =
     (let lhs = arg; lhs = vec3_mul_assign_scalar lhs rhs in (lhs, arg, rhs))"

definition operator_divide_scalar_vec3 ::
  "('a \<Rightarrow> 'a \<Rightarrow> 'a) \<Rightarrow> 'a vec3 \<Rightarrow> 'a \<Rightarrow> 'a vec3 \<times> 'a vec3 \<times> 'a" where
  "operator_divide_scalar_vec3 dv arg rhs =
     (let lhs = arg; lhs = vec3_div_assign_scalar dv lhs rhs in (lhs, arg, rhs))"

text \<open>
  The six comparison operators of either header are free function templates that read
  \<open>lhs.p\<close> and \<open>rhs.p\<close>. \<open>p\<close> is a private member and the operators are not friends, so
  every instantiation is ill-formed: they have no functions here (see \<open>vec3_call\<close> and
  \<open>vec_call\<close>).
\<close>

definition normalize_vec ::
  "('a \<Rightarrow> 'a) \<Rightarrow> ('a \<Rightarrow> 'a \<Rightarrow> 'a) \<Rightarrow> 'a::{zero,plus,times} vec \<Rightarrow> 'a vec \<times> 'a vec" where
  "normalize_vec sq dv arg = (let v = arg; v = vec_normalize sq dv v in (v, arg))"

definition operator_plus_vec ::
  "'a::plus vec \<Rightarrow> 'a vec \<Rightarrow> 'a vec \<times> 'a vec \<times> 'a vec" where
  "operator_plus_vec arg rhs =
     (let lhs = arg; lhs = vec_add_assign lhs rhs in (lhs, arg, rhs))"

definition operator_minus_vec ::
  "'a::minus vec \<Rightarrow> 'a vec \<Rightarrow> 'a vec \<times> 'a vec \<times> 'a vec" where
  "operator_minus_vec arg rhs =
     (let lhs = arg; lhs = vec_sub_assign lhs rhs in (lhs, arg, rhs))"

definition operator_times_vec ::
  "'a::times vec \<Rightarrow> 'a vec \<Rightarrow> 'a vec \<times> 'a vec \<times> 'a vec" where
  "operator_times_vec arg rhs =
     (let lhs = arg; lhs = vec_mul_assign lhs rhs in (lhs, arg, rhs))"

definition operator_divide_vec ::
  "('a \<Rightarrow> 'a \<Rightarrow> 'a) \<Rightarrow> 'a vec \<Rightarrow> 'a vec \<Rightarrow> 'a vec \<times> 'a vec \<times> 'a vec" where
  "operator_divide_vec dv arg rhs =
     (let lhs = arg; lhs = vec_div_assign dv lhs rhs in (lhs, arg, rhs))"

definition operator_times_scalar_vec ::
  "'a::times vec \<Rightarrow> 'a \<Rightarrow> 'a vec \<times> 'a vec \<times> 'a" where
  "operator_times_scalar_vec arg rhs =
     (let lhs = arg; lhs = vec_mul_assign_scalar lhs rhs in (lhs, arg, rhs))"

definition operator_divide_scalar_vec ::
  "('a \<Rightarrow> 'a \<Rightarrow> 'a) \<Rightarrow> 'a vec \<Rightarrow> 'a \<Rightarrow> 'a vec \<times> 'a vec \<times> 'a" where
  "operator_divide_scalar_vec dv arg rhs =
     (let lhs = arg; lhs = vec_div_assign_scalar dv lhs rhs in (lhs, arg, rhs))"

section \<open>The public interface as calls\<close>

text \<open>
  Every public member function and free function of the two headers, as a call on a
  receiver (for a free function: on its first operand). \<open>vec3_call\<close> and \<open>vec_call\<close>
  dispatch a call to the function it names and return what the caller observes: the
  failure the call leaves by (\<open>Inl\<close>), or its result (\<open>Inr\<close>; for a function that
  returns \<open>void\<close> or \<open>*this\<close>, the receiver after the call). A call of a function that
  is ill-formed when instantiated (the free \<open>dot\<close>, the comparison operators, the generic
  \<open>cross\<close>) does not compile: no program makes it, and its result is \<open>Ill_formed\<close>.
\<close>

datatype 'a result =
    Element 'a
  | Element_opt "'a option"
  | Object3 "'a vec3"
  | Object "'a vec"
  | Reference3 "'a vec3 reference"
  | Ill_formed

datatype 'a call3 =
    Swap3 "'a vec3" | Fill3 'a
  | X3 | Y3 | Z3 | Set_x3 'a | Set_y3 'a | Set_z3 'a
  | Normalize3 | Mean3 | Dot3 "'a vec3" | Cross3 "'a vec3"
  | Magnitude2_3 | Magnitude3 | Sum3 | Prod3 | Min3 | Max3
  | Sub_assign3 "'a vec3" | Add_assign3 "'a vec3" | Mul_assign3 "'a vec3" | Div_assign3 "'a vec3"
  | Mul_assign_scalar3 'a | Div_assign_scalar3 'a
  | Subscript3 nat | At3 nat
  | Free_normalize3 | Free_dot3 "'a vec3"
  | Plus3 "'a vec3" | Minus3 "'a vec3" | Times3 "'a vec3" | Divide3 "'a vec3"
  | Times_scalar3 'a | Divide_scalar3 'a
  | Eq3 "'a vec3" | Ne3 "'a vec3" | Lt3 "'a vec3" | Gt3 "'a vec3" | Le3 "'a vec3" | Ge3 "'a vec3"

primrec vec3_call ::
  "bool \<Rightarrow> ('a \<Rightarrow> 'a) \<Rightarrow> ('a \<Rightarrow> 'a \<Rightarrow> 'a) \<Rightarrow> ('a \<Rightarrow> int \<Rightarrow> 'a) \<Rightarrow>
   'a::{plus,minus,times,ord} vec3 \<Rightarrow> 'a call3 \<Rightarrow> failure + 'a result" where
  "vec3_call ex sq dv dv_int v (Swap3 other) = Inr (Object3 (fst (vec3_swap v other)))"
| "vec3_call ex sq dv dv_int v (Fill3 u) = Inr (Object3 (vec3_fill v u))"
| "vec3_call ex sq dv dv_int v X3 = Inr (Element (vec3_x v))"
| "vec3_call ex sq dv dv_int v Y3 = Inr (Element (vec3_y v))"
| "vec3_call ex sq dv dv_int v Z3 = Inr (Element (vec3_z v))"
| "vec3_call ex sq dv dv_int v (Set_x3 w) = Inr (Object3 (vec3_set_x v w))"
| "vec3_call ex sq dv dv_int v (Set_y3 w) = Inr (Object3 (vec3_set_y v w))"
| "vec3_call ex sq dv dv_int v (Set_z3 w) = Inr (Object3 (vec3_set_z v w))"
| "vec3_call ex sq dv dv_int v Normalize3 = Inr (Object3 (vec3_normalize sq dv v))"
| "vec3_call ex sq dv dv_int v Mean3 = Inr (Element (vec3_mean dv_int v))"
| "vec3_call ex sq dv dv_int v (Dot3 other) = Inr (Element (vec3_dot v other))"
| "vec3_call ex sq dv dv_int v (Cross3 other) = Inr (Reference3 (vec3_cross v other))"
| "vec3_call ex sq dv dv_int v Magnitude2_3 = Inr (Element (vec3_magnitude2 v))"
| "vec3_call ex sq dv dv_int v Magnitude3 = Inr (Element (vec3_magnitude sq v))"
| "vec3_call ex sq dv dv_int v Sum3 = Inr (Element (vec3_sum v))"
| "vec3_call ex sq dv dv_int v Prod3 = Inr (Element (vec3_prod v))"
| "vec3_call ex sq dv dv_int v Min3 = Inr (Element_opt (vec3_min v))"
| "vec3_call ex sq dv dv_int v Max3 = Inr (Element_opt (vec3_max v))"
| "vec3_call ex sq dv dv_int v (Sub_assign3 rhs) = Inr (Object3 (vec3_sub_assign v rhs))"
| "vec3_call ex sq dv dv_int v (Add_assign3 rhs) = Inr (Object3 (vec3_add_assign v rhs))"
| "vec3_call ex sq dv dv_int v (Mul_assign3 rhs) = Inr (Object3 (vec3_mul_assign v rhs))"
| "vec3_call ex sq dv dv_int v (Div_assign3 rhs) = Inr (Object3 (vec3_div_assign dv v rhs))"
| "vec3_call ex sq dv dv_int v (Mul_assign_scalar3 s) = Inr (Object3 (vec3_mul_assign_scalar v s))"
| "vec3_call ex sq dv dv_int v (Div_assign_scalar3 s) =
     Inr (Object3 (vec3_div_assign_scalar dv v s))"
| "vec3_call ex sq dv dv_int v (Subscript3 n) = Inr (Element_opt (vec3_subscript v n))"
| "vec3_call ex sq dv dv_int v (At3 n) = map_sum id Element (fst (vec3_at ex v n))"
| "vec3_call ex sq dv dv_int v Free_normalize3 = Inr (Object3 (fst (normalize_vec3 sq dv v)))"
| "vec3_call ex sq dv dv_int v (Free_dot3 b) = Inr Ill_formed"
| "vec3_call ex sq dv dv_int v (Plus3 rhs) = Inr (Object3 (fst (operator_plus_vec3 v rhs)))"
| "vec3_call ex sq dv dv_int v (Minus3 rhs) = Inr (Object3 (fst (operator_minus_vec3 v rhs)))"
| "vec3_call ex sq dv dv_int v (Times3 rhs) = Inr (Object3 (fst (operator_times_vec3 v rhs)))"
| "vec3_call ex sq dv dv_int v (Divide3 rhs) = Inr (Object3 (fst (operator_divide_vec3 dv v rhs)))"
| "vec3_call ex sq dv dv_int v (Times_scalar3 s) =
     Inr (Object3 (fst (operator_times_scalar_vec3 v s)))"
| "vec3_call ex sq dv dv_int v (Divide_scalar3 s) =
     Inr (Object3 (fst (operator_divide_scalar_vec3 dv v s)))"
| "vec3_call ex sq dv dv_int v (Eq3 rhs) = Inr Ill_formed"
| "vec3_call ex sq dv dv_int v (Ne3 rhs) = Inr Ill_formed"
| "vec3_call ex sq dv dv_int v (Lt3 rhs) = Inr Ill_formed"
| "vec3_call ex sq dv dv_int v (Gt3 rhs) = Inr Ill_formed"
| "vec3_call ex sq dv dv_int v (Le3 rhs) = Inr Ill_formed"
| "vec3_call ex sq dv dv_int v (Ge3 rhs) = Inr Ill_formed"

datatype 'a callN =
    SwapN "'a vec" | FillN 'a
  | NormalizeN | MeanN | DotN "'a vec" | CrossN "'a vec"
  | Magnitude2N | MagnitudeN | SumN | ProdN | MinN | MaxN
  | Add_assignN "'a vec" | Sub_assignN "'a vec" | Mul_assignN "'a vec" | Div_assignN "'a vec"
  | Mul_assign_scalarN 'a | Div_assign_scalarN 'a
  | SubscriptN nat
  | Free_normalizeN | Free_dotN "'a vec"
  | PlusN "'a vec" | MinusN "'a vec" | TimesN "'a vec" | DivideN "'a vec"
  | Times_scalarN 'a | Divide_scalarN 'a
  | EqN "'a vec" | NeN "'a vec" | LtN "'a vec" | GtN "'a vec" | LeN "'a vec" | GeN "'a vec"

primrec vec_call ::
  "('a \<Rightarrow> 'a) \<Rightarrow> ('a \<Rightarrow> 'a \<Rightarrow> 'a) \<Rightarrow> ('a \<Rightarrow> nat \<Rightarrow> 'a) \<Rightarrow>
   'a::{zero,plus,minus,times,ord} vec \<Rightarrow> 'a callN \<Rightarrow> failure + 'a result" where
  "vec_call sq dv dv_size v (SwapN other) = Inr (Object (fst (vec_swap v other)))"
| "vec_call sq dv dv_size v (FillN u) = Inr (Object (vec_fill v u))"
| "vec_call sq dv dv_size v NormalizeN = Inr (Object (vec_normalize sq dv v))"
| "vec_call sq dv dv_size v MeanN = Inr (Element (vec_mean dv_size v))"
| "vec_call sq dv dv_size v (DotN other) = Inr (Element (vec_dot v other))"
| "vec_call sq dv dv_size v (CrossN other) = Inr Ill_formed"
| "vec_call sq dv dv_size v Magnitude2N = Inr (Element (vec_magnitude2 v))"
| "vec_call sq dv dv_size v MagnitudeN = Inr (Element (vec_magnitude sq v))"
| "vec_call sq dv dv_size v SumN = Inr (Element (vec_sum v))"
| "vec_call sq dv dv_size v ProdN = Inr (Element_opt (vec_prod v))"
| "vec_call sq dv dv_size v MinN = Inr (Element_opt (vec_min v))"
| "vec_call sq dv dv_size v MaxN = Inr (Element_opt (vec_max v))"
| "vec_call sq dv dv_size v (Add_assignN rhs) = Inr (Object (vec_add_assign v rhs))"
| "vec_call sq dv dv_size v (Sub_assignN rhs) = Inr (Object (vec_sub_assign v rhs))"
| "vec_call sq dv dv_size v (Mul_assignN rhs) = Inr (Object (vec_mul_assign v rhs))"
| "vec_call sq dv dv_size v (Div_assignN rhs) = Inr (Object (vec_div_assign dv v rhs))"
| "vec_call sq dv dv_size v (Mul_assign_scalarN s) = Inr (Object (vec_mul_assign_scalar v s))"
| "vec_call sq dv dv_size v (Div_assign_scalarN s) = Inr (Object (vec_div_assign_scalar dv v s))"
| "vec_call sq dv dv_size v (SubscriptN n) = Inr (Element_opt (vec_subscript v n))"
| "vec_call sq dv dv_size v Free_normalizeN = Inr (Object (fst (normalize_vec sq dv v)))"
| "vec_call sq dv dv_size v (Free_dotN b) = Inr Ill_formed"
| "vec_call sq dv dv_size v (PlusN rhs) = Inr (Object (fst (operator_plus_vec v rhs)))"
| "vec_call sq dv dv_size v (MinusN rhs) = Inr (Object (fst (operator_minus_vec v rhs)))"
| "vec_call sq dv dv_size v (TimesN rhs) = Inr (Object (fst (operator_times_vec v rhs)))"
| "vec_call sq dv dv_size v (DivideN rhs) = Inr (Object (fst (operator_divide_vec dv v rhs)))"
| "vec_call sq dv dv_size v (Times_scalarN s) = Inr (Object (fst (operator_times_scalar_vec v s)))"
| "vec_call sq dv dv_size v (Divide_scalarN s) =
     Inr (Object (fst (operator_divide_scalar_vec dv v s)))"
| "vec_call sq dv dv_size v (EqN rhs) = Inr Ill_formed"
| "vec_call sq dv dv_size v (NeN rhs) = Inr Ill_formed"
| "vec_call sq dv dv_size v (LtN rhs) = Inr Ill_formed"
| "vec_call sq dv dv_size v (GtN rhs) = Inr Ill_formed"
| "vec_call sq dv dv_size v (LeN rhs) = Inr Ill_formed"
| "vec_call sq dv dv_size v (GeN rhs) = Inr Ill_formed"

section \<open>Loops and ranges\<close>

lemma fold_update:
  "n \<le> length p \<Longrightarrow>
   fold (\<lambda>i p. p[i := g i (p ! i)]) [0..<n] p = map (\<lambda>i. g i (p ! i)) [0..<n] @ drop n p"
proof (induction n)
  case 0
  then show ?case by simp
next
  case (Suc n)
  then have n: "n < length p" by simp
  let ?q = "map (\<lambda>i. g i (p ! i)) [0..<n] @ drop n p"
  have q: "fold (\<lambda>i p. p[i := g i (p ! i)]) [0..<n] p = ?q"
    using Suc by simp
  have qn: "?q ! n = p ! n"
    using n by (simp add: nth_append)
  have "?q[n := g n (p ! n)] = map (\<lambda>i. g i (p ! i)) [0..<Suc n] @ drop (Suc n) p"
    using n by (simp add: list_update_append Cons_nth_drop_Suc [symmetric])
  then show ?case
    using q qn by simp
qed

lemma for_loop_all:
  "fold (\<lambda>i p. p[i := g i (p ! i)]) [0..<length p] p = map (\<lambda>i. g i (p ! i)) [0..<length p]"
  using fold_update [of "length p" p g] by simp

lemma vec_scalar_loop:
  "fold (\<lambda>i p. p[i := g (p ! i)]) [0..<length p] p = map g p"
  using for_loop_all [of "\<lambda>i. g" p]
  by (simp add: map_nth flip: map_map [of g "(!) p", unfolded comp_def])

lemma iter_range_all: "iter_range p (first p) (last' p) = p"
  by (simp add: iter_range_def first_def last'_def)

lemma iter_range_second: "iter_range p (first p) (second p) = p"
  by (simp add: iter_range_def first_def second_def)

lemma iter_from_first: "iter_from p (first p) = p"
  by (simp add: iter_from_def first_def)

lemma accumulate_foldl: "accumulate xs init f = foldl f init xs"
  by (induction xs arbitrary: init) simp_all

lemma transform_reduce_map2:
  "length xs = length ys \<Longrightarrow> transform_reduce xs ys init = foldl (+) init (map2 (*) xs ys)"
  by (induction xs ys init rule: transform_reduce.induct) simp_all

lemma map2_nth:
  "length xs = length ys \<Longrightarrow> map2 f xs ys = map (\<lambda>i. f (xs ! i) (ys ! i)) [0..<length xs]"
  by (rule nth_equalityI) simp_all

lemma transform_reduce_foldl:
  "length xs = length ys \<Longrightarrow>
   transform_reduce xs ys init = foldl (+) init (map (\<lambda>i. xs ! i * ys ! i) [0..<length xs])"
  by (simp add: transform_reduce_map2 map2_nth)

section \<open>The specialised vector against the generic one\<close>

text \<open>
  For an object \<open>a\<close> of \<open>vec3<T>\<close>, \<open>Vec (array3 a)\<close> is the \<open>vec<T, 3>\<close> that holds the
  same three values. Where \<open>T\<close>'s addition has \<open>0\<close> as its neutral element, the
  reductions \<open>dot\<close>, \<open>magnitude2\<close>, \<open>sum\<close>, \<open>prod\<close>, \<open>min\<close>, \<open>max\<close> and every arithmetic
  operator, compound and free, give the same result on both, element for element. The two \<open>mean\<close>s divide the same sum, the generic
  one by \<open>N\<close> of type \<open>std::size_t\<close> and the specialised one by the \<open>int\<close> literal 3.
\<close>

theorem vec3_agrees_with_vec_at_3:
  fixes a b :: "'a::{comm_monoid_add,minus,times,ord} vec3"
  shows
   "vec_dot (Vec (array3 a)) (Vec (array3 b)) = vec3_dot a b \<and>
    vec_magnitude2 (Vec (array3 a)) = vec3_magnitude2 a \<and>
    vec_sum (Vec (array3 a)) = vec3_sum a \<and>
    vec_prod (Vec (array3 a)) = Some (vec3_prod a) \<and>
    vec_mean dv_size (Vec (array3 a)) = dv_size (vec3_sum a) 3 \<and>
    vec3_mean dv_int a = dv_int (vec3_sum a) 3 \<and>
    vec_min (Vec (array3 a)) = vec3_min a \<and>
    vec_max (Vec (array3 a)) = vec3_max a \<and>
    vec_add_assign (Vec (array3 a)) (Vec (array3 b)) = Vec (array3 (vec3_add_assign a b)) \<and>
    vec_sub_assign (Vec (array3 a)) (Vec (array3 b)) = Vec (array3 (vec3_sub_assign a b)) \<and>
    vec_mul_assign (Vec (array3 a)) (Vec (array3 b)) = Vec (array3 (vec3_mul_assign a b)) \<and>
    vec_div_assign dv (Vec (array3 a)) (Vec (array3 b)) = Vec (array3 (vec3_div_assign dv a b)) \<and>
    vec_mul_assign_scalar (Vec (array3 a)) s = Vec (array3 (vec3_mul_assign_scalar a s)) \<and>
    vec_div_assign_scalar dv (Vec (array3 a)) s = Vec (array3 (vec3_div_assign_scalar dv a s)) \<and>
    fst (operator_plus_vec (Vec (array3 a)) (Vec (array3 b))) =
      Vec (array3 (fst (operator_plus_vec3 a b))) \<and>
    fst (operator_minus_vec (Vec (array3 a)) (Vec (array3 b))) =
      Vec (array3 (fst (operator_minus_vec3 a b))) \<and>
    fst (operator_times_vec (Vec (array3 a)) (Vec (array3 b))) =
      Vec (array3 (fst (operator_times_vec3 a b))) \<and>
    fst (operator_divide_vec dv (Vec (array3 a)) (Vec (array3 b))) =
      Vec (array3 (fst (operator_divide_vec3 dv a b))) \<and>
    fst (operator_times_scalar_vec (Vec (array3 a)) s) =
      Vec (array3 (fst (operator_times_scalar_vec3 a s))) \<and>
    fst (operator_divide_scalar_vec dv (Vec (array3 a)) s) =
      Vec (array3 (fst (operator_divide_scalar_vec3 dv a s)))"
proof -
  obtain p0 p1 p2 where a: "a = Vec3 p0 p1 p2" by (cases a)
  obtain r0 r1 r2 where b: "b = Vec3 r0 r1 r2" by (cases b)
  have up: "[0..<3] = [0, 1, 2]"
    by (simp add: upt_conv_Cons)
  have reductions:
    "vec_dot (Vec (array3 a)) (Vec (array3 b)) = vec3_dot a b"
    "vec_magnitude2 (Vec (array3 a)) = vec3_magnitude2 a"
    "vec_sum (Vec (array3 a)) = vec3_sum a"
    "vec_prod (Vec (array3 a)) = Some (vec3_prod a)"
    "vec_min (Vec (array3 a)) = vec3_min a"
    "vec_max (Vec (array3 a)) = vec3_max a"
    by (simp_all add: a b deref_def first_def second_def last'_def iter_range_def iter_from_def
        vec3_min_def vec3_max_def)
  have means:
    "vec_mean dv_size (Vec (array3 a)) = dv_size (vec3_sum a) 3"
    "vec3_mean dv_int a = dv_int (vec3_sum a) 3"
    using reductions(3) by (simp_all add: vec_mean_def vec3_mean_def a numeral_3_eq_3)
  have compound:
    "vec_add_assign (Vec (array3 a)) (Vec (array3 b)) = Vec (array3 (vec3_add_assign a b))"
    "vec_sub_assign (Vec (array3 a)) (Vec (array3 b)) = Vec (array3 (vec3_sub_assign a b))"
    "vec_mul_assign (Vec (array3 a)) (Vec (array3 b)) = Vec (array3 (vec3_mul_assign a b))"
    "vec_div_assign dv (Vec (array3 a)) (Vec (array3 b)) = Vec (array3 (vec3_div_assign dv a b))"
    "vec_mul_assign_scalar (Vec (array3 a)) s = Vec (array3 (vec3_mul_assign_scalar a s))"
    "vec_div_assign_scalar dv (Vec (array3 a)) s = Vec (array3 (vec3_div_assign_scalar dv a s))"
    by (simp_all add: a b up)
  show ?thesis
    using reductions means compound
    by (simp add: operator_plus_vec_def operator_minus_vec_def operator_times_vec_def
        operator_divide_vec_def operator_times_scalar_vec_def operator_divide_scalar_vec_def
        operator_plus_vec3_def operator_minus_vec3_def operator_times_vec3_def
        operator_divide_vec3_def operator_times_scalar_vec3_def operator_divide_scalar_vec3_def)
qed

text \<open>
  C1. The claim: for every triple \<open>(x, y, z)\<close>, \<open>vec3<T>(x, y, z)\<close> and the \<open>vec<T, 3>\<close>
  holding the same values give identical results for \<open>dot\<close>, \<open>cross\<close>, \<open>magnitude2\<close>,
  \<open>sum\<close>, \<open>prod\<close>, \<open>mean\<close>, \<open>min\<close>, \<open>max\<close> and every arithmetic operator. For \<open>T = int\<close>
  and the triple \<open>(-1, -1, -1)\<close> the two \<open>mean\<close>s differ: \<open>vec<int, 3>::mean()\<close> divides
  the sum \<open>-3\<close> by \<open>N\<close> in \<open>std::size_t\<close> arithmetic and returns 1431655764, while
  \<open>vec3<int>::mean()\<close> divides by the \<open>int\<close> 3 and returns \<open>-1\<close>.
\<close>

theorem mean_of_negative_ints_differs:
  "vec_mean int_div_size_t (Vec (array3 (Vec3 (- 1) (- 1) (- 1)))) = 1431655764 \<and>
   vec3_mean int_div_int (Vec3 (- 1) (- 1) (- 1)) = - 1"
  by (simp add: vec_mean_def vec3_mean_def int_div_size_t_def int_div_int_def to_size_t_def
      size_t_to_int_def iter_range_second accumulate_foldl)

section \<open>Bounds-checked access\<close>

text \<open>
  C2. Built with exceptions, \<open>vec3::at(n)\<close> leaves by an out-of-range error exactly when
  \<open>n \<ge> 3\<close>, and the error carries the identifier \<open>v::vec3::at\<close>; for \<open>n < 3\<close> it returns the
  element \<open>operator[](n)\<close> returns. No other call of either interface leaves by a failure:
  a call of \<open>vec3\<close> that does is \<open>at(k)\<close> with \<open>k \<ge> 3\<close>, and no call of \<open>vec\<close> does.
\<close>

theorem at_is_the_only_checked_access:
  "((\<exists>f. fst (vec3_at True v n) = Inl f) \<longleftrightarrow> 3 \<le> n) \<and>
   (3 \<le> n \<longrightarrow> fst (vec3_at True v n) = Inl (Out_of_range ''v::vec3::at'')) \<and>
   (n < 3 \<longrightarrow> (\<exists>x. fst (vec3_at ex v n) = Inr x \<and> vec3_subscript v n = Some x)) \<and>
   (vec3_call True sq dv dv_int v c = Inl f \<longrightarrow>
      (\<exists>k\<ge>3. c = At3 k) \<and> f = Out_of_range ''v::vec3::at'') \<and>
   vec_call sq' dv' dv_size w c' \<noteq> Inl f'"
proof -
  have at: "(\<exists>f. fst (vec3_at True v n) = Inl f) \<longleftrightarrow> 3 \<le> n"
    by (simp add: vec3_at_def)
  have err: "3 \<le> n \<longrightarrow> fst (vec3_at True v n) = Inl (Out_of_range ''v::vec3::at'')"
    by (simp add: vec3_at_def throw_out_of_range_def)
  have val: "n < 3 \<longrightarrow> (\<exists>x. fst (vec3_at ex v n) = Inr x \<and> vec3_subscript v n = Some x)"
    by (simp add: vec3_at_def vec3_subscript_def)
  have only3: "vec3_call True sq dv dv_int v c = Inl f \<longrightarrow>
      (\<exists>k\<ge>3. c = At3 k) \<and> f = Out_of_range ''v::vec3::at''"
    by (cases c) (auto simp: vec3_at_def throw_out_of_range_def split: if_splits)
  have never: "vec_call sq' dv' dv_size w c' \<noteq> Inl f'"
    by (cases c') simp_all
  from at err val only3 never show ?thesis by blast
qed

theorem at_is_the_only_checked_access_witness:
  "fst (vec3_at True (Vec3 (10::real) 20 30) 3) = Inl (Out_of_range ''v::vec3::at'') \<and>
   vec3_call True sqrt (/) (\<lambda>x k. x / of_int k) (Vec3 (10::real) 20 30) (At3 3) =
     Inl (Out_of_range ''v::vec3::at'') \<and>
   fst (vec3_at True (Vec3 (10::real) 20 30) 2) = Inr 30 \<and>
   vec3_subscript (Vec3 (10::real) 20 30) 2 = Some 30"
  using
    at_is_the_only_checked_access [of "Vec3 (10::real) 20 30" 3 True sqrt "(/)"
      "\<lambda>x k. x / of_int k" "At3 3" "Out_of_range ''v::vec3::at''"]
    at_is_the_only_checked_access [of "Vec3 (10::real) 20 30" 2 True]
  by (simp add: vec3_at_def throw_out_of_range_def vec3_subscript_def)

text \<open>
  Built without exceptions (\<open>__cpp_exceptions\<close> not defined), the failing \<open>at(n)\<close> ends in
  \<open>terminate()\<close> and the identifier is dropped.
\<close>

theorem at_terminates_without_exceptions:
  "3 \<le> n \<Longrightarrow> vec3_at False v n = (Inl Terminate, v)"
  by (simp add: vec3_at_def throw_out_of_range_def)

theorem at_terminates_without_exceptions_witness:
  "(3::nat) \<le> 3 \<and> vec3_at False (Vec3 (10::int) 20 30) 3 = (Inl Terminate, Vec3 10 20 30)"
  using at_terminates_without_exceptions [of 3 "Vec3 (10::int) 20 30"] by simp

text \<open>
  C10. For \<open>n \<ge> 3\<close> the call \<open>v.at(n)\<close> leaves by the out-of-range error (by a failure
  in either build) and the three elements of \<open>v\<close> after it are those before the call.
\<close>

theorem at_failure_leaves_vector:
  "3 \<le> n \<Longrightarrow>
   vec3_at True v n = (Inl (Out_of_range ''v::vec3::at''), v) \<and>
   (\<exists>f. fst (vec3_at cpp_exceptions v n) = Inl f) \<and>
   array3 (snd (vec3_at cpp_exceptions v n)) = array3 v"
  by (simp add: vec3_at_def throw_out_of_range_def)

theorem at_failure_leaves_vector_witness:
  "(3::nat) \<le> 7 \<and>
   vec3_at True (Vec3 (1::int) 2 3) 7 = (Inl (Out_of_range ''v::vec3::at''), Vec3 1 2 3) \<and>
   array3 (snd (vec3_at False (Vec3 (1::int) 2 3) 7)) = [1, 2, 3]"
  using at_failure_leaves_vector [of 7 "Vec3 (1::int) 2 3" False] by simp

section \<open>Cross product\<close>

text \<open>
  C3. The claim: for \<open>a = (a0, a1, a2)\<close> and \<open>b = (b0, b1, b2)\<close>, \<open>a.cross(b)\<close> returns the
  vector \<open>(a1*b2 - a2*b1, a2*b0 - a0*b2, a0*b1 - a1*b0)\<close>, and \<open>(1, 0, 0)\<close> cross
  \<open>(0, 1, 0)\<close> equals \<open>(0, 0, 1)\<close>. \<open>vec3::cross\<close> builds that vector in a temporary and
  returns a reference to it, which dangles when the caller gets it: reading the result
  of \<open>(1, 0, 0)\<close> cross \<open>(0, 1, 0)\<close> is undefined, so the caller does not receive
  \<open>(0, 0, 1)\<close>.
\<close>

theorem cross_returns_dangling_reference:
  "vec3_cross (Vec3 a0 a1 a2) (Vec3 b0 b1 b2) =
     Dangles (Vec3 (a1 * b2 - a2 * b1) (a2 * b0 - a0 * b2) (a0 * b1 - a1 * b0)) \<and>
   vec3_cross (Vec3 1 0 0) (Vec3 0 1 0) = Dangles (Vec3 0 0 (1::real)) \<and>
   read_reference (vec3_cross (Vec3 1 0 0) (Vec3 0 1 0)) \<noteq> Some (Vec3 0 0 (1::real))"
  by simp

section \<open>Product\<close>

text \<open>
  C4. For a vector of \<open>N \<ge> 1\<close> elements, \<open>prod()\<close> is the left-to-right product of the
  remaining \<open>N - 1\<close> elements seeded with the first element: no multiplicative identity
  enters (the functions need \<open>T\<close>'s \<open>*\<close> only). \<open>vec3<int>(1, 2, 3).prod()\<close> is 6.
\<close>

theorem prod_seeds_with_first_element:
  "vec_prod (Vec (x # xs)) = Some (foldl (*) x xs) \<and>
   vec3_prod (Vec3 p0 p1 p2) = foldl (*) p0 [p1, p2] \<and>
   vec3_prod (Vec3 1 2 3) = (6::int) \<and>
   vec_prod (Vec [1, 2, 3]) = Some (6::int)"
  by (simp add: deref_def first_def last'_def iter_range_def accumulate_foldl)

section \<open>Normalisation\<close>

text \<open>
  C5. \<open>normalize()\<close> replaces every element of the receiver by its quotient by the
  magnitude the vector had before the call, and returns the receiver. Nothing guards the
  division: where that magnitude is zero, every element becomes \<open>T\<close>'s quotient by zero.
\<close>

theorem normalize_divides_by_prior_magnitude:
  fixes p0 p1 p2 :: "'a::{zero,plus,times}" and p :: "'a list"
  shows
   "vec3_magnitude sq (Vec3 p0 p1 p2) = sq (p0 * p0 + p1 * p1 + p2 * p2) \<and>
    vec3_normalize sq dv (Vec3 p0 p1 p2) =
      Vec3 (dv p0 (vec3_magnitude sq (Vec3 p0 p1 p2)))
           (dv p1 (vec3_magnitude sq (Vec3 p0 p1 p2)))
           (dv p2 (vec3_magnitude sq (Vec3 p0 p1 p2))) \<and>
    (vec3_magnitude sq (Vec3 p0 p1 p2) = 0 \<longrightarrow>
       vec3_normalize sq dv (Vec3 p0 p1 p2) = Vec3 (dv p0 0) (dv p1 0) (dv p2 0)) \<and>
    vec_normalize sq dv (Vec p) = Vec (map (\<lambda>x. dv x (vec_magnitude sq (Vec p))) p) \<and>
    (vec_magnitude sq (Vec p) = 0 \<longrightarrow>
       vec_normalize sq dv (Vec p) = Vec (map (\<lambda>x. dv x 0) p))"
proof -
  have loop: "vec_div_assign_scalar dv (Vec p) m = Vec (map (\<lambda>x. dv x m) p)" for m
    using vec_scalar_loop [of "\<lambda>x. dv x m" p] by simp
  have 3: "vec3_normalize sq dv (Vec3 p0 p1 p2) =
      Vec3 (dv p0 (vec3_magnitude sq (Vec3 p0 p1 p2)))
           (dv p1 (vec3_magnitude sq (Vec3 p0 p1 p2)))
           (dv p2 (vec3_magnitude sq (Vec3 p0 p1 p2)))"
    by (simp add: vec3_normalize_def)
  have n: "vec_normalize sq dv (Vec p) = Vec (map (\<lambda>x. dv x (vec_magnitude sq (Vec p))) p)"
    by (simp only: vec_normalize_def loop)
  have m: "vec3_magnitude sq (Vec3 p0 p1 p2) = sq (p0 * p0 + p1 * p1 + p2 * p2)"
    by (simp add: vec3_magnitude_def)
  from 3 n m show ?thesis by simp
qed

theorem normalize_divides_by_prior_magnitude_witness:
  "vec3_magnitude sqrt (Vec3 0 0 (0::real)) = 0 \<and>
   vec3_normalize sqrt (/) (Vec3 0 0 (0::real)) = Vec3 (0 / 0) (0 / 0) (0 / 0) \<and>
   vec_magnitude sqrt (Vec [0, 0 :: real]) = 0 \<and>
   vec_normalize sqrt (/) (Vec [0, 0 :: real]) = Vec [0 / 0, 0 / 0] \<and>
   vec3_normalize sqrt (/) (Vec3 3 0 (4::real)) = Vec3 (3 / 5) 0 (4 / 5)"
proof -
  have m: "vec3_magnitude sqrt (Vec3 0 0 (0::real)) = 0"
    by (simp add: vec3_magnitude_def)
  have n: "vec_magnitude sqrt (Vec [0, 0 :: real]) = 0"
    by (simp add: vec_magnitude_def iter_range_def iter_from_def first_def last'_def)
  have s: "sqrt (25::real) = 5"
    using real_sqrt_abs [of 5] by simp
  show ?thesis
    using m n s
      normalize_divides_by_prior_magnitude [of sqrt "0::real" 0 0 "(/)" "[0, 0]"]
      normalize_divides_by_prior_magnitude [of sqrt "3::real" 0 4 "(/)" "[]"]
    by simp
qed

section \<open>The free operators\<close>

text \<open>
  C7. For vectors \<open>a\<close> and \<open>b\<close> of the same shape and a scalar \<open>s\<close>, each free operator
  \<open>+\<close>, \<open>-\<close>, \<open>*\<close>, \<open>/\<close> returns a new vector whose element \<open>i\<close> is \<open>a[i] op b[i]\<close>
  (\<open>a[i] op s\<close> for the scalar forms of \<open>*\<close> and \<open>/\<close>), and both operands hold after the
  call the values they held before it; in \<open>vec\<close> and in \<open>vec3\<close>.
\<close>

theorem free_operators_value_and_frame:
  fixes a b :: "'a::{plus,minus,times} vec" and a3 b3 :: "'a vec3"
  shows
   "(vec_N a = vec_N b \<longrightarrow>
       operator_plus_vec a b =
         (Vec (map (\<lambda>i. array a ! i + array b ! i) [0..<vec_N a]), a, b) \<and>
       operator_minus_vec a b =
         (Vec (map (\<lambda>i. array a ! i - array b ! i) [0..<vec_N a]), a, b) \<and>
       operator_times_vec a b =
         (Vec (map (\<lambda>i. array a ! i * array b ! i) [0..<vec_N a]), a, b) \<and>
       operator_divide_vec dv a b =
         (Vec (map (\<lambda>i. dv (array a ! i) (array b ! i)) [0..<vec_N a]), a, b)) \<and>
    operator_times_scalar_vec a s = (Vec (map (\<lambda>i. array a ! i * s) [0..<vec_N a]), a, s) \<and>
    operator_divide_scalar_vec dv a s =
      (Vec (map (\<lambda>i. dv (array a ! i) s) [0..<vec_N a]), a, s) \<and>
    operator_plus_vec3 a3 b3 =
      (Vec3 (vec3_x a3 + vec3_x b3) (vec3_y a3 + vec3_y b3) (vec3_z a3 + vec3_z b3), a3, b3) \<and>
    operator_minus_vec3 a3 b3 =
      (Vec3 (vec3_x a3 - vec3_x b3) (vec3_y a3 - vec3_y b3) (vec3_z a3 - vec3_z b3), a3, b3) \<and>
    operator_times_vec3 a3 b3 =
      (Vec3 (vec3_x a3 * vec3_x b3) (vec3_y a3 * vec3_y b3) (vec3_z a3 * vec3_z b3), a3, b3) \<and>
    operator_divide_vec3 dv a3 b3 =
      (Vec3 (dv (vec3_x a3) (vec3_x b3)) (dv (vec3_y a3) (vec3_y b3))
         (dv (vec3_z a3) (vec3_z b3)), a3, b3) \<and>
    operator_times_scalar_vec3 a3 s =
      (Vec3 (vec3_x a3 * s) (vec3_y a3 * s) (vec3_z a3 * s), a3, s) \<and>
    operator_divide_scalar_vec3 dv a3 s =
      (Vec3 (dv (vec3_x a3) s) (dv (vec3_y a3) s) (dv (vec3_z a3) s), a3, s)"
proof -
  obtain p where a: "a = Vec p" by (cases a)
  obtain r where b: "b = Vec r" by (cases b)
  obtain p0 p1 p2 where a3: "a3 = Vec3 p0 p1 p2" by (cases a3)
  obtain r0 r1 r2 where b3: "b3 = Vec3 r0 r1 r2" by (cases b3)
  have 1: "operator_plus_vec a b =
      (Vec (map (\<lambda>i. array a ! i + array b ! i) [0..<vec_N a]), a, b)"
    unfolding a b operator_plus_vec_def Let_def
    using for_loop_all [of "\<lambda>i x. x + r ! i" p] by simp
  have 2: "operator_minus_vec a b =
      (Vec (map (\<lambda>i. array a ! i - array b ! i) [0..<vec_N a]), a, b)"
    unfolding a b operator_minus_vec_def Let_def
    using for_loop_all [of "\<lambda>i x. x - r ! i" p] by simp
  have 3: "operator_times_vec a b =
      (Vec (map (\<lambda>i. array a ! i * array b ! i) [0..<vec_N a]), a, b)"
    unfolding a b operator_times_vec_def Let_def
    using for_loop_all [of "\<lambda>i x. x * r ! i" p] by simp
  have 4: "operator_divide_vec dv a b =
      (Vec (map (\<lambda>i. dv (array a ! i) (array b ! i)) [0..<vec_N a]), a, b)"
    unfolding a b operator_divide_vec_def Let_def
    using for_loop_all [of "\<lambda>i x. dv x (r ! i)" p] by simp
  have 5: "operator_times_scalar_vec a s =
      (Vec (map (\<lambda>i. array a ! i * s) [0..<vec_N a]), a, s)"
    unfolding a operator_times_scalar_vec_def Let_def
    using for_loop_all [of "\<lambda>i x. x * s" p] by simp
  have 6: "operator_divide_scalar_vec dv a s =
      (Vec (map (\<lambda>i. dv (array a ! i) s) [0..<vec_N a]), a, s)"
    unfolding a operator_divide_scalar_vec_def Let_def
    using for_loop_all [of "\<lambda>i x. dv x s" p] by simp
  have 7:
    "operator_plus_vec3 a3 b3 =
      (Vec3 (vec3_x a3 + vec3_x b3) (vec3_y a3 + vec3_y b3) (vec3_z a3 + vec3_z b3), a3, b3)"
    "operator_minus_vec3 a3 b3 =
      (Vec3 (vec3_x a3 - vec3_x b3) (vec3_y a3 - vec3_y b3) (vec3_z a3 - vec3_z b3), a3, b3)"
    "operator_times_vec3 a3 b3 =
      (Vec3 (vec3_x a3 * vec3_x b3) (vec3_y a3 * vec3_y b3) (vec3_z a3 * vec3_z b3), a3, b3)"
    "operator_divide_vec3 dv a3 b3 =
      (Vec3 (dv (vec3_x a3) (vec3_x b3)) (dv (vec3_y a3) (vec3_y b3))
         (dv (vec3_z a3) (vec3_z b3)), a3, b3)"
    "operator_times_scalar_vec3 a3 s =
      (Vec3 (vec3_x a3 * s) (vec3_y a3 * s) (vec3_z a3 * s), a3, s)"
    "operator_divide_scalar_vec3 dv a3 s =
      (Vec3 (dv (vec3_x a3) s) (dv (vec3_y a3) s) (dv (vec3_z a3) s), a3, s)"
    by (simp_all add: a3 b3 operator_plus_vec3_def operator_minus_vec3_def
        operator_times_vec3_def operator_divide_vec3_def operator_times_scalar_vec3_def
        operator_divide_scalar_vec3_def)
  from 1 2 3 4 5 6 7 show ?thesis by blast
qed

theorem free_operators_value_and_frame_witness:
  "vec_N (Vec [6, 8 :: int]) = vec_N (Vec [2, 4 :: int]) \<and>
   operator_plus_vec (Vec [6, 8 :: int]) (Vec [2, 4]) = (Vec [8, 12], Vec [6, 8], Vec [2, 4]) \<and>
   operator_minus_vec (Vec [6, 8 :: int]) (Vec [2, 4]) = (Vec [4, 4], Vec [6, 8], Vec [2, 4]) \<and>
   operator_times_vec (Vec [6, 8 :: int]) (Vec [2, 4]) = (Vec [12, 32], Vec [6, 8], Vec [2, 4]) \<and>
   operator_divide_vec int_div_int (Vec [6, 8 :: int]) (Vec [2, 4]) =
     (Vec [3, 2], Vec [6, 8], Vec [2, 4])"
  using free_operators_value_and_frame [of "Vec [6, 8 :: int]" "Vec [2, 4]" int_div_int]
  by (simp add: upt_conv_Cons int_div_int_def)

section \<open>Dot product\<close>

text \<open>
  The member \<open>a.dot(b)\<close>, for vectors of the same shape and \<open>T\<close> whose addition is a
  commutative monoid: it returns the sum over \<open>i\<close> of \<open>a[i] * b[i]\<close>, folded from the left
  from the additive identity, and changes neither \<open>a\<close> nor \<open>b\<close>; in \<open>vec\<close> and in \<open>vec3\<close>.
  (\<open>vec3::dot\<close> adds the three products without a seed; the monoid law \<open>0 + x = x\<close> makes
  that the seeded fold.)
\<close>

theorem member_dot_inner_product:
  fixes a b :: "'a::{comm_monoid_add,times} vec" and a3 b3 :: "'a vec3"
  shows
   "(vec_N a = vec_N b \<longrightarrow>
       const_call vec_dot a b =
         (foldl (+) 0 (map (\<lambda>i. array a ! i * array b ! i) [0..<vec_N a]), a, b)) \<and>
    const_call vec3_dot a3 b3 =
      (foldl (+) 0 (map (\<lambda>i. array3 a3 ! i * array3 b3 ! i) [0..<3]), a3, b3)"
proof -
  obtain p where a: "a = Vec p" by (cases a)
  obtain q where b: "b = Vec q" by (cases b)
  obtain p0 p1 p2 where a3: "a3 = Vec3 p0 p1 p2" by (cases a3)
  obtain q0 q1 q2 where b3: "b3 = Vec3 q0 q1 q2" by (cases b3)
  have "vec_dot a b = foldl (+) 0 (map (\<lambda>i. array a ! i * array b ! i) [0..<vec_N a])"
    if "vec_N a = vec_N b"
    using that by (simp add: a b iter_range_all iter_from_first transform_reduce_foldl)
  moreover have
    "vec3_dot a3 b3 = foldl (+) 0 (map (\<lambda>i. array3 a3 ! i * array3 b3 ! i) [0..<3])"
    by (simp add: a3 b3 upt_conv_Cons)
  ultimately show ?thesis
    by (simp add: const_call_def)
qed

theorem member_dot_inner_product_witness:
  "vec_N (Vec [1, 2, 3, 4 :: int]) = vec_N (Vec [5, 6, 7, 8 :: int]) \<and>
   const_call vec_dot (Vec [1, 2, 3, 4 :: int]) (Vec [5, 6, 7, 8]) =
     (70, Vec [1, 2, 3, 4], Vec [5, 6, 7, 8]) \<and>
   const_call vec3_dot (Vec3 1 2 (3 :: int)) (Vec3 4 5 6) = (32, Vec3 1 2 3, Vec3 4 5 6)"
  using member_dot_inner_product
    [of "Vec [1, 2, 3, 4 :: int]" "Vec [5, 6, 7, 8]" "Vec3 1 2 3" "Vec3 4 5 6"]
  by (simp add: upt_conv_Cons)

section \<open>The named setters\<close>

text \<open>
  C9. Each setter \<open>x(w)\<close>, \<open>y(w)\<close>, \<open>z(w)\<close> of \<open>vec3\<close> stores \<open>w\<close> in its own slot (0, 1, 2)
  and leaves the other two slots as they were: afterwards the accessor of the same name
  reads \<open>w\<close> and the other two read their earlier values.
\<close>

theorem setters_assign_own_slot:
  "array3 (vec3_set_x v w) = (array3 v)[0 := w] \<and>
   array3 (vec3_set_y v w) = (array3 v)[1 := w] \<and>
   array3 (vec3_set_z v w) = (array3 v)[2 := w] \<and>
   vec3_x (vec3_set_x v w) = w \<and> vec3_y (vec3_set_x v w) = vec3_y v \<and>
   vec3_z (vec3_set_x v w) = vec3_z v \<and>
   vec3_x (vec3_set_y v w) = vec3_x v \<and> vec3_y (vec3_set_y v w) = w \<and>
   vec3_z (vec3_set_y v w) = vec3_z v \<and>
   vec3_x (vec3_set_z v w) = vec3_x v \<and> vec3_y (vec3_set_z v w) = vec3_y v \<and>
   vec3_z (vec3_set_z v w) = w"
  by (cases v) simp

end
